theory Spec2Isabelle
  imports Complex_Main "HOL-Library.Word"
begin

section \<open>Exceptions\<close>

text \<open>
  The exceptions that the calls of the program raise, with the file name or the message
  where there is one. All of them are subclasses of \<^verbatim>\<open>Exception\<close>, which is what the
  driver catches.
\<close>

datatype error =
    FileNotFoundError string
  | UnidentifiedImageError string
  | ValueError string
  | OSError string
  | IndexError
  | TypeError
  | AttributeError

section \<open>Arrays\<close>

text \<open>
  A numpy array is a shape and a flat, row-major buffer of elements. Elementwise
  operations keep the shape and map over the buffer, whatever the number of axes is.
\<close>

record 'a ndarray =
  shape :: "nat list"
  data :: "'a list"

type_synonym uint8 = "8 word"


text \<open>\<^verbatim>\<open>mask_array > 0\<close>: the elementwise comparison with a scalar.\<close>

definition greater :: "'a::{zero,linorder} ndarray \<Rightarrow> 'a \<Rightarrow> bool ndarray" where
  "greater a s = \<lparr>shape = shape a, data = map (\<lambda>v. s < v) (data a)\<rparr>"

text \<open>\<^verbatim>\<open>.astype(np.uint8)\<close> on a boolean array: True is 1, False is 0.\<close>

definition astype_uint8 :: "bool ndarray \<Rightarrow> uint8 ndarray" where
  "astype_uint8 a = \<lparr>shape = shape a, data = map (\<lambda>b. if b then 1 else 0) (data a)\<rparr>"

text \<open>\<^verbatim>\<open>np.unique\<close>: the sorted distinct elements of the flattened array.\<close>

definition np_unique :: "'a::linorder ndarray \<Rightarrow> 'a list" where
  "np_unique a = remdups_adj (sort (data a))"

text \<open>
  Reading entry \<open>(i, j)\<close> of a two-dimensional array, \<^verbatim>\<open>a[i, j]\<close>: the buffer is
  row-major, and an index outside the shape raises.
\<close>

definition item2 :: "'a ndarray \<Rightarrow> nat \<Rightarrow> nat \<Rightarrow> error + 'a" where
  "item2 a i j =
     (case shape a of
        [R, C] \<Rightarrow>
          if i < R \<and> j < C \<and> i * C + j < length (data a)
          then Inr (data a ! (i * C + j)) else Inl IndexError
      | _ \<Rightarrow> Inl IndexError)"

section \<open>Console output\<close>

text \<open>
  Python values that end up in the saved file: strings, integers, one-dimensional integer
  arrays, lists, and object arrays (a shape and a row-major buffer of objects).
\<close>

datatype pyobj =
    PyStr string
  | PyInt int
  | PyIntArray "int list"
  | PyList "pyobj list"
  | PyObjArray "nat list" "pyobj list"

text \<open>
  The console is a human-readable log. Each \<^verbatim>\<open>print\<close> statement of the source is one
  constructor, carrying the values the statement interpolates.
\<close>

datatype 'a msg =
    Loading_PNG_mask_from string
  | Mask_shape "nat list"
  | Mask_dtype
  | Unique_values "'a list"
  | Binary_mask_detected
  | Non_binary_mask_detected
  | Found_contours nat
  | Contour_points nat nat
  | Saving_NPY_file_to string
  | Conversion_complete string
  | File_size string
  | Separator
  | Processing string
  | Error_file_not_found string
  | Successfully_converted string string
  | Verifying_created_NPY_file
  | Loaded_array_shape "nat list"
  | Loaded_array_dtype
  | Number_of_annotations nat
  | Timestamp pyobj
  | Action pyobj
  | Number_of_contours nat
  | Error_during_conversion string error
  | Traceback error
  | All_conversions_completed

section \<open>The binarizer\<close>

text \<open>
  Lines 33 to 40 of \<^verbatim>\<open>convert_mask_to_npy\<close>: a conditional on the number of distinct
  values. Each branch prints its own message and thresholds the array.
\<close>

definition binary_branch :: "'a::{zero,linorder} ndarray \<Rightarrow> 'b msg \<times> uint8 ndarray" where
  "binary_branch mask_array = (Binary_mask_detected, astype_uint8 (greater mask_array 0))"

definition non_binary_branch :: "'a::{zero,linorder} ndarray \<Rightarrow> 'b msg \<times> uint8 ndarray" where
  "non_binary_branch mask_array = (Non_binary_mask_detected, astype_uint8 (greater mask_array 0))"

definition binarize :: "'a::{zero,linorder} ndarray \<Rightarrow> 'b msg \<times> uint8 ndarray" where
  "binarize mask_array =
     (if length (np_unique mask_array) = 2 then binary_branch mask_array
      else non_binary_branch mask_array)"

text \<open>
  The single thresholding step the specification asks implementers to collapse the
  conditional to: \<open>mask[i,j] = 1 if raw[i,j] > 0 else 0\<close>.
\<close>

definition threshold :: "'a::{zero,linorder} ndarray \<Rightarrow> uint8 ndarray" where
  "threshold raw = \<lparr>shape = shape raw, data = map (\<lambda>v. if 0 < v then 1 else 0) (data raw)\<rparr>"

section \<open>Paths\<close>

text \<open>
  \<^verbatim>\<open>str.rfind\<close> for a one-character needle: the highest index where it occurs, or -1.
\<close>

fun rfind :: "string \<Rightarrow> char \<Rightarrow> int" where
  "rfind [] c = - 1"
| "rfind (x # xs) c =
     (let r = rfind xs c in if 0 \<le> r then r + 1 else if x = c then 0 else - 1)"

text \<open>\<^verbatim>\<open>str.endswith\<close>.\<close>

definition endswith :: "string \<Rightarrow> string \<Rightarrow> bool" where
  "endswith s suffix =
     (length suffix \<le> length s \<and> drop (length s - length suffix) s = suffix)"

text \<open>
  \<^verbatim>\<open>os.path.basename\<close> of posixpath: \<^verbatim>\<open>i = p.rfind('/') + 1; return p[i:]\<close>.
\<close>

definition basename :: "string \<Rightarrow> string" where
  "basename p = (let i = rfind p CHR ''/'' + 1 in drop (nat i) p)"

text \<open>
  \<^verbatim>\<open>os.path.splitext\<close> of posixpath. The extension starts at the last dot after the last
  slash, unless only dots stand between that slash and the dot: the loop looks for a
  character other than a dot in front of it.
\<close>

function splitext_loop :: "string \<Rightarrow> int \<Rightarrow> int \<Rightarrow> (string \<times> string) option" where
  "splitext_loop p filenameIndex dotIndex =
     (if filenameIndex < dotIndex then
        (if take 1 (drop (nat filenameIndex) p) \<noteq> ''.''
         then Some (take (nat dotIndex) p, drop (nat dotIndex) p)
         else splitext_loop p (filenameIndex + 1) dotIndex)
      else None)"
  by pat_completeness auto
termination
  by (relation "measure (\<lambda>(p, filenameIndex, dotIndex). nat (dotIndex - filenameIndex))") auto

declare splitext_loop.simps [simp del]

definition splitext :: "string \<Rightarrow> string \<times> string" where
  "splitext p =
     (let sepIndex = rfind p CHR ''/''; dotIndex = rfind p CHR ''.'' in
      if sepIndex < dotIndex then
        (case splitext_loop p (sepIndex + 1) dotIndex of
           Some r \<Rightarrow> r
         | None \<Rightarrow> (p, []))
      else (p, []))"

text \<open>
  Lines 75 to 78: the output path is the caller's when one is given, and otherwise the
  input's base name without its extension, followed by \<^verbatim>\<open>_seg.npy\<close>.
\<close>

definition determine_output_path :: "string \<Rightarrow> string option \<Rightarrow> string" where
  "determine_output_path png_path output_path =
     (case output_path of
        None \<Rightarrow> (let base_name = fst (splitext (basename png_path)) in base_name @ ''_seg.npy'')
      | Some given \<Rightarrow> given)"

section \<open>The world: files, clock and console\<close>

text \<open>
  A file holds a decodable image (the array \<^verbatim>\<open>np.array(Image.open(path))\<close> yields), a saved
  array, or bytes that are neither. The world also says which paths can be written, and
  what \<^verbatim>\<open>datetime.now().strftime("%m/%d/%Y, %H:%M:%S")\<close> returns.
\<close>

datatype 'a disk_file = ImageFile "'a ndarray" | NpyFile pyobj | OtherFile

record 'a world =
  files :: "string \<Rightarrow> 'a disk_file option"
  writable :: "string \<Rightarrow> bool"
  now :: string
  console :: "'a msg list"

text \<open>
  A statement either raises or returns a value, and changes the world in both cases.
\<close>

type_synonym ('a, 'r) io = "'a world \<Rightarrow> (error + 'r) \<times> 'a world"

definition io_return :: "'r \<Rightarrow> ('a, 'r) io" where
  "io_return x w = (Inr x, w)"

definition io_lift :: "error + 'r \<Rightarrow> ('a, 'r) io" where
  "io_lift r w = (r, w)"

definition io_bind :: "('a, 'r) io \<Rightarrow> ('r \<Rightarrow> ('a, 's) io) \<Rightarrow> ('a, 's) io" where
  "io_bind m f w = (case m w of (Inl e, w') \<Rightarrow> (Inl e, w') | (Inr x, w') \<Rightarrow> f x w')"


definition print :: "'a msg \<Rightarrow> ('a, unit) io" where
  "print m w = (Inr (), w\<lparr>console := console w @ [m]\<rparr>)"

definition os_path_exists :: "string \<Rightarrow> ('a, bool) io" where
  "os_path_exists path w = (Inr (files w path \<noteq> None), w)"

text \<open>
  \<^verbatim>\<open>os.path.getsize\<close> raises when the path does not exist. The byte count it returns
  depends on the encoding of the file and is not modelled.
\<close>

definition os_path_getsize :: "string \<Rightarrow> ('a, unit) io" where
  "os_path_getsize path w =
     (case files w path of
        None \<Rightarrow> (Inl (FileNotFoundError path), w)
      | Some f \<Rightarrow> (Inr (), w))"

text \<open>
  \<^verbatim>\<open>Image.open\<close> followed by \<^verbatim>\<open>np.array\<close>: the image is represented by the array it
  decodes to.
\<close>

definition Image_open :: "string \<Rightarrow> ('a, 'a ndarray) io" where
  "Image_open path w =
     (case files w path of
        None \<Rightarrow> (Inl (FileNotFoundError path), w)
      | Some (ImageFile img) \<Rightarrow> (Inr img, w)
      | Some _ \<Rightarrow> (Inl (UnidentifiedImageError path), w))"

definition np_array :: "'a ndarray \<Rightarrow> 'a ndarray" where
  "np_array img = img"

definition strftime_now :: "('a, string) io" where
  "strftime_now w = (Inr (now w), w)"

text \<open>
  \<^verbatim>\<open>np.save(file, arr, allow_pickle=True)\<close> with a string for \<^verbatim>\<open>file\<close>: numpy appends
  \<^verbatim>\<open>.npy\<close> to a name that does not end with it, opens that file for writing and replaces
  what it held. The bytes written are not modelled: the file holds the array.
\<close>

definition np_save :: "string \<Rightarrow> pyobj \<Rightarrow> ('a, unit) io" where
  "np_save file arr w =
     (let file' = (if endswith file ''.npy'' then file else file @ ''.npy'') in
      if writable w file' then (Inr (), w\<lparr>files := (files w)(file' \<mapsto> NpyFile arr)\<rparr>)
      else (Inl (OSError file'), w))"

text \<open>\<^verbatim>\<open>np.load(file, allow_pickle=True)\<close> opens the path as it is given.\<close>

definition np_load :: "string \<Rightarrow> ('a, pyobj) io" where
  "np_load file w =
     (case files w file of
        None \<Rightarrow> (Inl (FileNotFoundError file), w)
      | Some (NpyFile arr) \<Rightarrow> (Inr arr, w)
      | Some _ \<Rightarrow> (Inl (ValueError file), w))"

section \<open>Python objects\<close>

text \<open>
  \<^verbatim>\<open>np.array([row], dtype=object)\<close> for rows of equal length that hold a string: numpy
  stops at the strings, so the result has two axes and the items of the rows are its
  elements.
\<close>

definition np_array_object :: "pyobj list list \<Rightarrow> pyobj" where
  "np_array_object rows =
     (case rows of
        [] \<Rightarrow> PyObjArray [0] []
      | r # _ \<Rightarrow> PyObjArray [length rows, length r] (concat rows))"



definition py_getitem :: "pyobj \<Rightarrow> nat \<Rightarrow> error + pyobj" where
  "py_getitem obj i =
     (case obj of
        PyStr s \<Rightarrow> if i < length s then Inr (PyStr [s ! i]) else Inl IndexError
      | PyInt n \<Rightarrow> Inl TypeError
      | PyIntArray xs \<Rightarrow> if i < length xs then Inr (PyInt (xs ! i)) else Inl IndexError
      | PyList xs \<Rightarrow> if i < length xs then Inr (xs ! i) else Inl IndexError
      | PyObjArray sh d \<Rightarrow>
          (case sh of
             [] \<Rightarrow> Inl IndexError
           | [n] \<Rightarrow> if i < n \<and> i < length d then Inr (d ! i) else Inl IndexError
           | n # rest \<Rightarrow>
               if i < n
               then Inr (PyObjArray rest (take (prod_list rest) (drop (i * prod_list rest) d)))
               else Inl IndexError))"

text \<open>
  \<^verbatim>\<open>annotation[i].append(v)\<close>: the item at \<open>i\<close> must exist and be a list.
\<close>

definition append_at :: "pyobj list \<Rightarrow> nat \<Rightarrow> pyobj \<Rightarrow> error + pyobj list" where
  "append_at annotation i v =
     (if i < length annotation then
        (case annotation ! i of
           PyList xs \<Rightarrow> Inr (annotation[i := PyList (xs @ [v])])
         | _ \<Rightarrow> Inl AttributeError)
      else Inl IndexError)"

section \<open>Contours and the annotation record\<close>

text \<open>
  A contour is an \<open>(N, 2)\<close> array of float64: one (row, column) pair per point. A finite
  float64 is the real number it denotes, and the conversion reads the coordinates without
  computing with them.
\<close>

type_synonym contour = "(real \<times> real) list"

text \<open>
  \<^verbatim>\<open>.astype(int)\<close> on a float64 within the range of int64: the fraction is dropped.
\<close>

definition astype_int :: "real \<Rightarrow> int" where
  "astype_int v = (if 0 \<le> v then \<lfloor>v\<rfloor> else \<lceil>v\<rceil>)"

text \<open>Lines 61 to 70: the loop over \<^verbatim>\<open>enumerate(contours)\<close>.\<close>

fun add_contours :: "contour list \<Rightarrow> nat \<Rightarrow> pyobj list \<Rightarrow> ('a, pyobj list) io" where
  "add_contours [] i annotation = io_return annotation"
| "add_contours (contour # rest) i annotation =
     (let y_coords = map astype_int (map fst contour);
          x_coords = map astype_int (map snd contour) in
      io_bind (io_lift (append_at annotation 2 (PyIntArray x_coords))) (\<lambda>annotation.
      io_bind (io_lift (append_at annotation 3 (PyIntArray y_coords))) (\<lambda>annotation.
      io_bind (print (Contour_points (i + 1) (length x_coords))) (\<lambda>_.
      add_contours rest (i + 1) annotation))))"

section \<open>The conversion\<close>

text \<open>
  \<^verbatim>\<open>skimage.measure.find_contours\<close> is a library routine outside the repository. The
  conversion takes it as a parameter: a function from the binary mask and the level to a
  list of contours, or to the exception it raises.
\<close>

definition convert_mask_to_npy ::
  "(uint8 ndarray \<Rightarrow> real \<Rightarrow> error + contour list) \<Rightarrow> string \<Rightarrow> string option
     \<Rightarrow> ('a::{zero,linorder}, string) io" where
  "convert_mask_to_npy find_contours png_path output_path =
     io_bind (print (Loading_PNG_mask_from png_path)) (\<lambda>_.
     io_bind (Image_open png_path) (\<lambda>img.
     let mask_array = np_array img in
     io_bind (print (Mask_shape (shape mask_array))) (\<lambda>_.
     io_bind (print Mask_dtype) (\<lambda>_.
     io_bind (print (Unique_values (np_unique mask_array))) (\<lambda>_.
     let (detected, binary_mask) = binarize mask_array in
     io_bind (print detected) (\<lambda>_.
     io_bind (io_lift (find_contours binary_mask (1 / 2))) (\<lambda>contours.
     io_bind (print (Found_contours (length contours))) (\<lambda>_.
     io_bind strftime_now (\<lambda>current_time.
     let annotation = [PyStr current_time, PyStr ''converted from PNG'', PyList [], PyList []] in
     io_bind (add_contours contours 0 annotation) (\<lambda>annotation.
     let final_array = np_array_object [annotation];
         output_path = determine_output_path png_path output_path in
     io_bind (print (Saving_NPY_file_to output_path)) (\<lambda>_.
     io_bind (np_save output_path final_array) (\<lambda>_.
     io_bind (print (Conversion_complete output_path)) (\<lambda>_.
     io_bind (os_path_getsize output_path) (\<lambda>_.
     io_bind (print (File_size output_path)) (\<lambda>_.
     io_return output_path)))))))))))))))"

section \<open>The driver\<close>









section \<open>Contour extraction\<close>

text \<open>
  Modelled from the spec: \<^verbatim>\<open>skimage.measure.find_contours\<close>, the library routine behind the
  Contour Extractor, is not among the repository's sources. The specification describes it
  as marching squares at an iso-level: every 2 by 2 cell of the grid is classified by which
  of its corners lie above the level, a cell with corners on both sides contributes line
  segments between the interpolated crossings of its edges, in row-major scan order, and
  the segments are joined end to end into polylines of (row, column) points. An array
  that is not two-dimensional is refused.
\<close>

type_synonym point = "real \<times> real"










section \<open>Example inputs\<close>

definition example_raw :: "int ndarray" where
  "example_raw = \<lparr>shape = [2, 2], data = [- 3, 0, 7, 255]\<rparr>"

definition example_full :: "int ndarray" where
  "example_full = \<lparr>shape = [2, 3], data = [255, 255, 255, 255, 255, 255]\<rparr>"

definition example_contours :: "contour list" where
  "example_contours = [[(1 / 2, 1), (0, 3 / 2)], [(1, 1), (5 / 2, 7 / 2), (3, 3)]]"

definition example_find_contours :: "uint8 ndarray \<Rightarrow> real \<Rightarrow> error + contour list" where
  "example_find_contours binary_mask level = Inr example_contours"

definition example_world :: "int world" where
  "example_world =
     \<lparr>files = [''samples/x.png'' \<mapsto> ImageFile example_raw,
               ''samples/full.png'' \<mapsto> ImageFile example_full,
               ''samples/bad.png'' \<mapsto> OtherFile],
      writable = (\<lambda>path. True),
      now = ''11/04/2026, 10:00:00'',
      console = []\<rparr>"

section \<open>Stepping through the statements\<close>

lemma io_bind_return [simp]: "io_bind (io_return x) f w = f x w"
  by (simp add: io_bind_def io_return_def)

lemma io_bind_print [simp]: "io_bind (print m) f w = f () (w\<lparr>console := console w @ [m]\<rparr>)"
  by (simp add: io_bind_def print_def)

lemma io_bind_lift [simp]:
  "io_bind (io_lift r) f w = (case r of Inl e \<Rightarrow> (Inl e, w) | Inr x \<Rightarrow> f x w)"
  by (simp add: io_bind_def io_lift_def split: sum.splits)

lemma io_bind_strftime_now [simp]: "io_bind strftime_now f w = f (now w) w"
  by (simp add: io_bind_def strftime_now_def)

lemma io_bind_Image_open [simp]:
  "io_bind (Image_open path) f w =
     (case files w path of
        None \<Rightarrow> (Inl (FileNotFoundError path), w)
      | Some (ImageFile img) \<Rightarrow> f img w
      | Some _ \<Rightarrow> (Inl (UnidentifiedImageError path), w))"
  by (simp add: io_bind_def Image_open_def split: option.splits disk_file.splits)

lemma io_bind_np_save [simp]:
  "io_bind (np_save file arr) f w =
     (if writable w (if endswith file ''.npy'' then file else file @ ''.npy'')
      then f () (w\<lparr>files := (files w)((if endswith file ''.npy'' then file else file @ ''.npy'') \<mapsto> NpyFile arr)\<rparr>)
      else (Inl (OSError (if endswith file ''.npy'' then file else file @ ''.npy'')), w))"
  by (simp add: io_bind_def np_save_def Let_def)

lemma io_bind_os_path_getsize [simp]:
  "io_bind (os_path_getsize path) f w =
     (case files w path of None \<Rightarrow> (Inl (FileNotFoundError path), w) | Some x \<Rightarrow> f () w)"
  by (simp add: io_bind_def os_path_getsize_def split: option.splits)

lemma io_bind_os_path_exists [simp]:
  "io_bind (os_path_exists path) f w = f (files w path \<noteq> None) w"
  by (simp add: io_bind_def os_path_exists_def)

lemma add_contours_eq:
  "add_contours cs i [a, b, PyList xs, PyList ys] w =
     (Inr [a, b,
           PyList (xs @ map (\<lambda>c. PyIntArray (map astype_int (map snd c))) cs),
           PyList (ys @ map (\<lambda>c. PyIntArray (map astype_int (map fst c))) cs)],
      w\<lparr>console := console w @ map (\<lambda>(k, c). Contour_points (k + 1) (length c)) (enumerate i cs)\<rparr>)"
proof (induction cs arbitrary: i xs ys w)
  case Nil
  then show ?case by (simp add: io_return_def)
next
  case (Cons c cs)
  show ?case
    by (simp add: Let_def append_at_def Cons.IH)
qed

lemma binarize_eq:
  "binarize a =
     (if length (np_unique a) = 2 then Binary_mask_detected else Non_binary_mask_detected,
      threshold a)"
  by (simp add: binarize_def binary_branch_def non_binary_branch_def threshold_def
      astype_uint8_def greater_def)

lemma threshold_values: "set (data (threshold a)) \<subseteq> {0, 1}"
  by (auto simp: threshold_def)

lemma threshold_idem: "threshold (threshold a) = threshold a"
  by (simp add: threshold_def)

lemma item2_threshold:
  "item2 a i j = Inr x \<Longrightarrow> item2 (threshold a) i j = Inr (if 0 < x then 1 else 0)"
  by (auto simp: item2_def threshold_def split: list.splits if_splits)

lemma io_bind_add_contours:
  "io_bind (add_contours cs i [a, b, PyList xs, PyList ys]) f w =
     f [a, b,
        PyList (xs @ map (\<lambda>c. PyIntArray (map astype_int (map snd c))) cs),
        PyList (ys @ map (\<lambda>c. PyIntArray (map astype_int (map fst c))) cs)]
       (w\<lparr>console := console w @ map (\<lambda>(k, c). Contour_points (k + 1) (length c)) (enumerate i cs)\<rparr>)"
  by (simp add: io_bind_def add_contours_eq)

lemma convert_success:
  assumes "convert_mask_to_npy fc p op w = (Inr out, w')"
  shows "\<exists>img cs. files w p = Some (ImageFile img)
      \<and> fc (threshold img) (1 / 2) = Inr cs
      \<and> out = determine_output_path p op
      \<and> writable w (if endswith out ''.npy'' then out else out @ ''.npy'')
      \<and> files w' = (files w)((if endswith out ''.npy'' then out else out @ ''.npy'') \<mapsto>
            NpyFile (PyObjArray [1, 4]
              [PyStr (now w), PyStr ''converted from PNG'',
               PyList (map (\<lambda>c. PyIntArray (map astype_int (map snd c))) cs),
               PyList (map (\<lambda>c. PyIntArray (map astype_int (map fst c))) cs)]))
      \<and> files w' out \<noteq> None
      \<and> writable w' = writable w \<and> now w' = now w"
  using assms unfolding convert_mask_to_npy_def
  by (simp add: Let_def binarize_eq io_bind_add_contours np_array_def np_array_object_def io_return_def
      split: option.splits disk_file.splits sum.splits if_splits) auto

lemma endswith_append: "endswith (s @ suffix) suffix"
  by (simp add: endswith_def)

lemma default_path_npy: "endswith (determine_output_path p None) ''.npy''"
proof -
  have "determine_output_path p None = (fst (splitext (basename p)) @ ''_seg'') @ ''.npy''"
    by (simp add: determine_output_path_def)
  then show ?thesis by (simp only: endswith_append)
qed

lemma np_load_eq:
  "files w file = Some (NpyFile arr) \<Longrightarrow> np_load file w = (Inr arr, w)"
  by (simp add: np_load_def)









section \<open>Base names and extensions\<close>

lemma rfind_absent: "c \<notin> set s \<Longrightarrow> rfind s c = - 1"
  by (induction s) (auto simp: Let_def)

lemma rfind_last: "c \<notin> set t \<Longrightarrow> rfind (s @ c # t) c = int (length s)"
  by (induction s) (auto simp: Let_def rfind_absent)

lemma basename_of_name: "CHR ''/'' \<notin> set name \<Longrightarrow> basename name = name"
  by (simp add: basename_def rfind_absent)

lemma basename_in_dir:
  "CHR ''/'' \<notin> set name \<Longrightarrow> basename (dir @ CHR ''/'' # name) = name"
proof -
  have "nat (int (length dir) + 1) = Suc (length dir)" by simp
  then show ?thesis if "CHR ''/'' \<notin> set name"
    using that by (simp add: basename_def rfind_last)
qed

lemma splitext_loop_found:
  "i \<le> k \<Longrightarrow> k < d \<Longrightarrow> 0 \<le> i \<Longrightarrow> take 1 (drop (nat k) p) \<noteq> ''.'' \<Longrightarrow>
   splitext_loop p i d = Some (take (nat d) p, drop (nat d) p)"
proof (induction p i d rule: splitext_loop.induct)
  case (1 p i d)
  show ?case
  proof (cases "take 1 (drop (nat i) p) \<noteq> ''.''")
    case True
    with "1.prems" show ?thesis by (subst splitext_loop.simps) simp
  next
    case False
    with "1.prems" have "i \<noteq> k" by auto
    with "1.prems" have "i + 1 \<le> k" by simp
    with False "1.prems" "1.IH" show ?thesis
      by (subst splitext_loop.simps) simp
  qed
qed

lemma splitext_name:
  assumes "CHR ''/'' \<notin> set B" "CHR ''/'' \<notin> set ext" "CHR ''.'' \<notin> set ext"
    and "\<exists>c \<in> set B. c \<noteq> CHR ''.''"
  shows "splitext (B @ CHR ''.'' # ext) = (B, CHR ''.'' # ext)"
proof -
  from assms(4) obtain k where k: "k < length B" "B ! k \<noteq> CHR ''.''"
    by (auto simp: in_set_conv_nth)
  have sep: "rfind (B @ CHR ''.'' # ext) CHR ''/'' = - 1"
    using assms by (simp add: rfind_absent)
  have dot: "rfind (B @ CHR ''.'' # ext) CHR ''.'' = int (length B)"
    using assms by (simp add: rfind_last)
  have "take 1 (drop (nat (int k)) (B @ CHR ''.'' # ext)) \<noteq> ''.''"
  proof -
    have "drop k B = B ! k # drop (Suc k) B"
      using k by (simp add: Cons_nth_drop_Suc)
    with k show ?thesis by simp
  qed
  then have "splitext_loop (B @ CHR ''.'' # ext) 0 (int (length B)) =
      Some (take (nat (int (length B))) (B @ CHR ''.'' # ext), drop (nat (int (length B))) (B @ CHR ''.'' # ext))"
    using k by (intro splitext_loop_found[where k = "int k"]) simp_all
  then show ?thesis
    by (simp add: splitext_def sep dot)
qed

lemma splitext_no_dot:
  "CHR ''.'' \<notin> set B \<Longrightarrow> splitext B = (B, [])"
  using rfind_absent[of "CHR ''.''" B] 
  by (induction B) (auto simp: splitext_def Let_def)

section \<open>Marching squares on a uniform grid\<close>










section \<open>Runs of the conversion\<close>

lemma astype_int_truncates:
  "\<bar>real_of_int (astype_int v)\<bar> \<le> \<bar>v\<bar>
   \<and> \<bar>v - real_of_int (astype_int v)\<bar> < 1
   \<and> 0 \<le> real_of_int (astype_int v) * v"
proof (cases "0 \<le> v")
  case True
  then have "0 \<le> \<lfloor>v\<rfloor>" by simp
  with True show ?thesis
    by (simp add: astype_int_def) linarith
next
  case False
  then have "\<lceil>v\<rceil> \<le> 0" by (simp add: ceiling_le_zero) 
  with False show ?thesis
    by (simp add: astype_int_def mult_nonpos_nonpos) linarith
qed

lemma convert_runs:
  assumes "files w p = Some (ImageFile img)"
    and "fc (threshold img) (1 / 2) = Inr cs"
    and "endswith (determine_output_path p op) ''.npy''"
    and "writable w (determine_output_path p op)"
  shows "fst (convert_mask_to_npy fc p op w) = Inr (determine_output_path p op)"
    and "files (snd (convert_mask_to_npy fc p op w)) =
         (files w)(determine_output_path p op \<mapsto>
            NpyFile (PyObjArray [1, 4]
              [PyStr (now w), PyStr ''converted from PNG'',
               PyList (map (\<lambda>c. PyIntArray (map astype_int (map snd c))) cs),
               PyList (map (\<lambda>c. PyIntArray (map astype_int (map fst c))) cs)]))"
  using assms unfolding convert_mask_to_npy_def
  by (simp_all add: Let_def binarize_eq io_bind_add_contours np_array_def np_array_object_def
      io_return_def eval_nat_numeral)

lemma example_files:
  "files example_world ''samples/x.png'' = Some (ImageFile example_raw)"
  "files example_world ''samples/full.png'' = Some (ImageFile example_full)"
  "files example_world ''samples/bad.png'' = Some OtherFile"
  "files example_world ''samples/none.png'' = None"
  by (simp_all add: example_world_def)

lemma example_output_path: "determine_output_path ''samples/x.png'' None = ''x_seg.npy''"
proof -
  have "basename (''samples'' @ CHR ''/'' # ''x.png'') = ''x.png''"
    by (rule basename_in_dir) simp
  moreover have "splitext (''x'' @ CHR ''.'' # ''png'') = (''x'', CHR ''.'' # ''png'')"
    by (rule splitext_name) simp_all
  ultimately show ?thesis by (simp add: determine_output_path_def)
qed

lemma example_convert:
  "fst (convert_mask_to_npy example_find_contours ''samples/x.png'' None example_world) = Inr ''x_seg.npy''"
  using convert_runs(1)[of example_world "''samples/x.png''" example_raw example_find_contours
      example_contours None]
  by (simp add: example_files example_output_path example_find_contours_def endswith_def)
     (simp add: example_world_def)




section \<open>The claims\<close>

text \<open>
  Claim C2. For every input grid, of any element type with a zero and a linear order, the
  mask the binarizer returns has the shape of the input, and its entry is 1 where the raw
  entry is greater than zero and 0 everywhere else, negative entries included: at every
  position of the buffer, and at every index \<open>(i, j)\<close> of a two-dimensional grid. Every
  entry of the mask is 0 or 1.
\<close>
theorem binarize_entries:
  fixes raw :: "'a::{zero,linorder} ndarray"
  defines "binary_mask \<equiv> snd (binarize raw :: 'b msg \<times> uint8 ndarray)"
  shows "shape binary_mask = shape raw
    \<and> length (data binary_mask) = length (data raw)
    \<and> (\<forall>k < length (data raw). data binary_mask ! k = (if 0 < data raw ! k then 1 else 0))
    \<and> (\<forall>i j x. item2 raw i j = Inr x \<longrightarrow>
          item2 binary_mask i j = Inr (if 0 < x then 1 else 0))
    \<and> set (data binary_mask) \<subseteq> {0, 1}"
  unfolding binary_mask_def
  using threshold_values[of raw] item2_threshold[of raw]
  by (simp add: binarize_eq) (simp add: threshold_def)

theorem binarize_entries_witness:
  "(2::nat) < length (data example_raw)
   \<and> data (snd (binarize example_raw :: unit msg \<times> uint8 ndarray)) ! 2 = 1
   \<and> data (snd (binarize example_raw :: unit msg \<times> uint8 ndarray)) ! 0 = 0
   \<and> item2 example_raw 1 0 = Inr 7
   \<and> item2 (snd (binarize example_raw :: unit msg \<times> uint8 ndarray)) 1 0 = Inr 1
   \<and> item2 example_raw 0 0 = Inr (- 3)
   \<and> item2 (snd (binarize example_raw :: unit msg \<times> uint8 ndarray)) 0 0 = Inr 0"
proof -
  have len: "(2::nat) < length (data example_raw)" "(0::nat) < length (data example_raw)"
    by (simp_all add: example_raw_def)
  have at10: "item2 example_raw 1 0 = Inr 7" and at00: "item2 example_raw 0 0 = Inr (- 3)"
    by (simp_all add: item2_def example_raw_def)
  have vals: "data example_raw ! 2 = 7" "data example_raw ! 0 = - 3"
    by (simp_all add: example_raw_def)
  from binarize_entries[of example_raw, where 'b = unit] len at10 at00 vals
  show ?thesis by auto
qed

text \<open>
  Claim C8. Binarization is idempotent: binarizing the mask that binarization returned
  gives that mask again.
\<close>
theorem binarize_idempotent:
  fixes raw :: "'a::{zero,linorder} ndarray"
  shows "snd (binarize (snd (binarize raw :: 'b msg \<times> uint8 ndarray)) :: 'c msg \<times> uint8 ndarray)
       = snd (binarize raw :: 'b msg \<times> uint8 ndarray)"
  by (simp add: binarize_eq threshold_idem)

text \<open>
  Claim C9. The branch for exactly two distinct values and the other branch compute the
  same mask, which is the single thresholding step: the conditional decides the printed
  message and nothing else.
\<close>
theorem binarize_branches_agree:
  fixes raw :: "'a::{zero,linorder} ndarray"
  shows "snd (binary_branch raw :: 'b msg \<times> uint8 ndarray) = snd (non_binary_branch raw :: 'b msg \<times> uint8 ndarray)
    \<and> snd (binary_branch raw :: 'b msg \<times> uint8 ndarray) = threshold raw
    \<and> (binarize raw :: 'b msg \<times> uint8 ndarray) =
        (if length (np_unique raw) = 2 then Binary_mask_detected else Non_binary_mask_detected,
         threshold raw)"
  by (simp add: binarize_eq)
     (simp add: binary_branch_def non_binary_branch_def threshold_def astype_uint8_def greater_def)

text \<open>
  Claim C3. The loop appends, for each contour in order, the column coordinates cast to
  integers to the x list and the row coordinates cast to integers to the y list. The cast
  truncates toward zero: the integer is no larger in magnitude than the coordinate, less
  than one away from it, and of the same sign.
\<close>
theorem pack_contours_truncated:
  "fst (add_contours contours i [timestamp, label, PyList xs, PyList ys] w) =
     Inr [timestamp, label,
          PyList (xs @ map (\<lambda>contour. PyIntArray (map (\<lambda>point. astype_int (snd point)) contour)) contours),
          PyList (ys @ map (\<lambda>contour. PyIntArray (map (\<lambda>point. astype_int (fst point)) contour)) contours)]
   \<and> (\<forall>v. \<bar>real_of_int (astype_int v)\<bar> \<le> \<bar>v\<bar>
          \<and> \<bar>v - real_of_int (astype_int v)\<bar> < 1
          \<and> 0 \<le> real_of_int (astype_int v) * v)"
  using astype_int_truncates by (simp add: add_contours_eq comp_def)



text \<open>
  Claim C4. When the conversion called as the driver calls it returns an output file,
  loading that file gives back the array that was saved: its one row holds the timestamp
  string, the label string and the integer coordinate sequences of the contours, item for
  item.
\<close>
theorem reload_yields_saved_record:
  assumes "convert_mask_to_npy find_contours png_path None w = (Inr output_file, w')"
  shows "\<exists>img contours xs ys annotation.
      files w png_path = Some (ImageFile img)
    \<and> find_contours (snd (binarize img :: 'a msg \<times> uint8 ndarray)) (1 / 2) = Inr contours
    \<and> xs = map (\<lambda>c. PyIntArray (map astype_int (map snd c))) contours
    \<and> ys = map (\<lambda>c. PyIntArray (map astype_int (map fst c))) contours
    \<and> annotation = [PyStr (now w), PyStr ''converted from PNG'', PyList xs, PyList ys]
    \<and> files w' output_file = Some (NpyFile (np_array_object [annotation]))
    \<and> np_load output_file w' = (Inr (np_array_object [annotation]), w')
    \<and> py_getitem (np_array_object [annotation]) 0 = Inr (PyObjArray [4] annotation)
    \<and> py_getitem (PyObjArray [4] annotation) 0 = Inr (PyStr (now w))
    \<and> py_getitem (PyObjArray [4] annotation) 1 = Inr (PyStr ''converted from PNG'')
    \<and> py_getitem (PyObjArray [4] annotation) 2 = Inr (PyList xs)
    \<and> py_getitem (PyObjArray [4] annotation) 3 = Inr (PyList ys)"
proof -
  from convert_success[OF assms] obtain img cs where
    img: "files w png_path = Some (ImageFile img)" and
    cs: "find_contours (threshold img) (1 / 2) = Inr cs" and
    out: "output_file = determine_output_path png_path None" and
    fs: "files w' = (files w)((if endswith output_file ''.npy'' then output_file else output_file @ ''.npy'') \<mapsto>
            NpyFile (PyObjArray [1, 4]
              [PyStr (now w), PyStr ''converted from PNG'',
               PyList (map (\<lambda>c. PyIntArray (map astype_int (map snd c))) cs),
               PyList (map (\<lambda>c. PyIntArray (map astype_int (map fst c))) cs)]))"
    by blast
  have "endswith output_file ''.npy''"
    unfolding out by (rule default_path_npy)
  with fs have stored: "files w' output_file = Some (NpyFile (np_array_object
              [[PyStr (now w), PyStr ''converted from PNG'',
               PyList (map (\<lambda>c. PyIntArray (map astype_int (map snd c))) cs),
               PyList (map (\<lambda>c. PyIntArray (map astype_int (map fst c))) cs)]]))"
    by (simp add: np_array_object_def)
  from img cs stored np_load_eq[OF stored] show ?thesis
    by (simp add: binarize_eq) (simp add: np_array_object_def py_getitem_def)
qed

theorem reload_yields_saved_record_witness:
  "fst (convert_mask_to_npy example_find_contours ''samples/x.png'' None example_world) = Inr ''x_seg.npy''
   \<and> fst (np_load ''x_seg.npy''
        (snd (convert_mask_to_npy example_find_contours ''samples/x.png'' None example_world)))
     = Inr (PyObjArray [1, 4]
         [PyStr ''11/04/2026, 10:00:00'', PyStr ''converted from PNG'',
          PyList [PyIntArray [1, 1], PyIntArray [1, 3, 3]],
          PyList [PyIntArray [0, 0], PyIntArray [1, 2, 3]]])"
proof -
  have run: "convert_mask_to_npy example_find_contours ''samples/x.png'' None example_world =
      (Inr ''x_seg.npy'', snd (convert_mask_to_npy example_find_contours ''samples/x.png'' None example_world))"
    by (simp add: prod_eq_iff example_convert)
  have t: "now example_world = ''11/04/2026, 10:00:00''"
    by (simp add: example_world_def)
  from reload_yields_saved_record[OF run] example_files(1) t show ?thesis
    by (auto simp: example_convert example_find_contours_def example_contours_def astype_int_def
        np_array_object_def)
qed




text \<open>
  Claim C6. Without an explicit output path the output path is the base name of the input
  without its extension, followed by \<^verbatim>\<open>_seg.npy\<close>: \<^verbatim>\<open>x_seg.npy\<close> for \<^verbatim>\<open>samples/x.png\<close>, and
  \<open>B_seg.npy\<close> for every input \<open>B.ext\<close>, in a directory or not, and for every input \<open>B\<close>
  without extension. It is the path the conversion returns and writes. With an explicit
  output path the default is not computed.
\<close>
theorem default_output_path:
  "determine_output_path png_path None = fst (splitext (basename png_path)) @ ''_seg.npy''
   \<and> determine_output_path ''samples/x.png'' None = ''x_seg.npy''
   \<and> (CHR ''/'' \<notin> set B \<and> (\<exists>c \<in> set B. c \<noteq> CHR ''.'')
        \<and> CHR ''/'' \<notin> set ext \<and> CHR ''.'' \<notin> set ext
      \<longrightarrow> determine_output_path (B @ ''.'' @ ext) None = B @ ''_seg.npy''
        \<and> determine_output_path (dir @ ''/'' @ B @ ''.'' @ ext) None = B @ ''_seg.npy'')
   \<and> (CHR ''/'' \<notin> set B \<and> CHR ''.'' \<notin> set B
      \<longrightarrow> determine_output_path B None = B @ ''_seg.npy''
        \<and> determine_output_path (dir @ ''/'' @ B) None = B @ ''_seg.npy'')
   \<and> determine_output_path png_path (Some given) = given
   \<and> (\<forall>out w'. convert_mask_to_npy find_contours png_path None w = (Inr out, w')
        \<longrightarrow> out = fst (splitext (basename png_path)) @ ''_seg.npy''
          \<and> (\<exists>arr. files w' out = Some (NpyFile arr)))
   \<and> (\<forall>out w'. convert_mask_to_npy find_contours png_path (Some given) w = (Inr out, w')
        \<longrightarrow> out = given)"
proof -
  have a: "determine_output_path p None = fst (splitext (basename p)) @ ''_seg.npy''" for p
    by (simp add: determine_output_path_def)
  have b: "determine_output_path (B @ ''.'' @ ext) None = B @ ''_seg.npy''
        \<and> determine_output_path (dir @ ''/'' @ B @ ''.'' @ ext) None = B @ ''_seg.npy''"
    if "CHR ''/'' \<notin> set B" "\<exists>c \<in> set B. c \<noteq> CHR ''.''" "CHR ''/'' \<notin> set ext" "CHR ''.'' \<notin> set ext"
  proof -
    have "CHR ''/'' \<notin> set (B @ CHR ''.'' # ext)" using that by simp
    then have "basename (B @ CHR ''.'' # ext) = B @ CHR ''.'' # ext"
      and "basename (dir @ CHR ''/'' # B @ CHR ''.'' # ext) = B @ CHR ''.'' # ext"
      by (rule basename_of_name, rule basename_in_dir)
    with splitext_name[OF that(1,3,4,2)] show ?thesis
      by (simp add: a)
  qed
  have c: "determine_output_path B None = B @ ''_seg.npy''
        \<and> determine_output_path (dir @ ''/'' @ B) None = B @ ''_seg.npy''"
    if "CHR ''/'' \<notin> set B" "CHR ''.'' \<notin> set B"
    using that basename_of_name[of B] basename_in_dir[of B dir] splitext_no_dot[of B]
    by (simp add: a)
  have d: "out = fst (splitext (basename png_path)) @ ''_seg.npy'' \<and> (\<exists>arr. files w' out = Some (NpyFile arr))"
    if "convert_mask_to_npy find_contours png_path None w = (Inr out, w')" for out w'
  proof -
    from convert_success[OF that] obtain arr where
      out: "out = determine_output_path png_path None" and
      fs: "files w' = (files w)((if endswith out ''.npy'' then out else out @ ''.npy'') \<mapsto> NpyFile arr)"
      by blast
    have "endswith out ''.npy''" unfolding out by (rule default_path_npy)
    with fs out show ?thesis by (simp add: a)
  qed
  have e: "out = given"
    if "convert_mask_to_npy find_contours png_path (Some given) w = (Inr out, w')" for out w'
    using convert_success[OF that] by (auto simp: determine_output_path_def)
  from a b c d e example_output_path show ?thesis
    by (simp add: determine_output_path_def)
qed


theorem default_output_path_witness:
  "CHR ''/'' \<notin> set ''x'' \<and> (\<exists>c \<in> set ''x''. c \<noteq> CHR ''.'')
   \<and> CHR ''/'' \<notin> set ''png'' \<and> CHR ''.'' \<notin> set ''png''
   \<and> determine_output_path (''samples'' @ ''/'' @ ''x'' @ ''.'' @ ''png'') None = ''x'' @ ''_seg.npy''
   \<and> CHR ''/'' \<notin> set ''mask'' \<and> CHR ''.'' \<notin> set ''mask''
   \<and> determine_output_path (''samples'' @ ''/'' @ ''mask'') None = ''mask'' @ ''_seg.npy''
   \<and> fst (convert_mask_to_npy example_find_contours ''samples/x.png'' None example_world) = Inr ''x_seg.npy''
   \<and> fst (splitext (basename ''samples/x.png'')) @ ''_seg.npy'' = ''x_seg.npy''
   \<and> (\<exists>arr. files (snd (convert_mask_to_npy example_find_contours ''samples/x.png'' None example_world))
          ''x_seg.npy'' = Some (NpyFile arr))"
proof -
  have run: "convert_mask_to_npy example_find_contours ''samples/x.png'' None example_world =
      (Inr ''x_seg.npy'', snd (convert_mask_to_npy example_find_contours ''samples/x.png'' None example_world))"
    by (simp add: prod_eq_iff example_convert)
  have h1: "CHR ''/'' \<notin> set ''x'' \<and> (\<exists>c \<in> set ''x''. c \<noteq> CHR ''.'')
        \<and> CHR ''/'' \<notin> set ''png'' \<and> CHR ''.'' \<notin> set ''png''"
    by simp
  have h2: "CHR ''/'' \<notin> set ''mask'' \<and> CHR ''.'' \<notin> set ''mask''"
    by simp
  from default_output_path[of "''samples/x.png''" "''x''" "''png''" "''samples''" _
      example_find_contours example_world] h1 run
  have r1: "determine_output_path (''samples'' @ ''/'' @ ''x'' @ ''.'' @ ''png'') None = ''x'' @ ''_seg.npy''"
    and r2: "''x_seg.npy'' = fst (splitext (basename ''samples/x.png'')) @ ''_seg.npy''
       \<and> (\<exists>arr. files (snd (convert_mask_to_npy example_find_contours ''samples/x.png'' None example_world))
          ''x_seg.npy'' = Some (NpyFile arr))"
    by blast+
  from default_output_path[of "''samples/x.png''" "''mask''" "''png''" "''samples''" _
      example_find_contours example_world] h2
  have r3: "determine_output_path (''samples'' @ ''/'' @ ''mask'') None = ''mask'' @ ''_seg.npy''"
    by blast
  note r4 = r2[THEN conjunct1, symmetric] and r5 = r2[THEN conjunct2]
  from h1 h2 r1 r3 r4 r5 example_convert show ?thesis
    by simp
qed



text \<open>
  Claim C10, at an explicit output path that does not end with \<^verbatim>\<open>.npy\<close>: the array is
  written to \<^verbatim>\<open>out.npy\<close>, nothing is written to \<^verbatim>\<open>out\<close>, and after printing that the
  conversion is complete the call raises at \<^verbatim>\<open>os.path.getsize\<close> instead of returning the
  path.
\<close>
theorem explicit_path_without_npy_suffix:
  "fst (convert_mask_to_npy example_find_contours ''samples/x.png'' (Some ''out'') example_world)
     = Inl (FileNotFoundError ''out'')
   \<and> files (snd (convert_mask_to_npy example_find_contours ''samples/x.png'' (Some ''out'') example_world))
       ''out'' = None
   \<and> files (snd (convert_mask_to_npy example_find_contours ''samples/x.png'' (Some ''out'') example_world))
       ''out.npy''
     = Some (NpyFile (PyObjArray [1, 4]
         [PyStr ''11/04/2026, 10:00:00'', PyStr ''converted from PNG'',
          PyList [PyIntArray [1, 1], PyIntArray [1, 3, 3]],
          PyList [PyIntArray [0, 0], PyIntArray [1, 2, 3]]]))
   \<and> last (console (snd (convert_mask_to_npy example_find_contours ''samples/x.png'' (Some ''out'') example_world)))
     = Conversion_complete ''out''"
  by (simp add: convert_mask_to_npy_def Let_def binarize_eq io_bind_add_contours example_files
      example_find_contours_def determine_output_path_def endswith_def np_array_def
      np_array_object_def)
     (simp add: example_world_def example_contours_def astype_int_def)

text \<open>
  An explicit output path that ends with \<^verbatim>\<open>.npy\<close> is the path written and returned.
\<close>

lemma explicit_npy_path_written:
  assumes "convert_mask_to_npy find_contours png_path (Some given) w = (Inr out, w')"
    and "endswith given ''.npy''"
  shows "out = given \<and> (\<exists>arr. files w' given = Some (NpyFile arr))"
proof -
  from convert_success[OF assms(1)] obtain arr where
    out: "out = determine_output_path png_path (Some given)" and
    fs: "files w' = (files w)((if endswith out ''.npy'' then out else out @ ''.npy'') \<mapsto> NpyFile arr)"
    by blast
  from out have "out = given" by (simp add: determine_output_path_def)
  with fs assms(2) show ?thesis by simp
qed

end
